theory Spec2Isabelle
  imports Complex_Main "HOL-Library.Sublist"
begin

section \<open>Text primitives\<close>

text \<open>
  Python \<^verbatim>\<open>str\<close> values are modelled as \<^typ>\<open>string\<close>, one \<^typ>\<open>char\<close> per code point,
  for ASCII text (code points 0 to 127).  On that range \<^verbatim>\<open>str.strip\<close>, \<^verbatim>\<open>str.upper\<close>,
  \<^verbatim>\<open>str.lower\<close> and the classes \<^verbatim>\<open>\s\<close>, \<^verbatim>\<open>\d\<close> of \<^verbatim>\<open>re\<close> are the functions below;
  characters from 128 on are left alone by all of them and are outside the model.
\<close>

definition is_space :: "char \<Rightarrow> bool" where
  \<comment> \<open>\<^verbatim>\<open>str.isspace\<close> and \<^verbatim>\<open>\s\<close>: TAB, LF, VT, FF, CR, FS, GS, RS, US and the blank\<close>
  "is_space c = (c \<in> set [CHR 0x09, CHR 0x0A, CHR 0x0B, CHR 0x0C, CHR 0x0D,
                             CHR 0x1C, CHR 0x1D, CHR 0x1E, CHR 0x1F, CHR '' ''])"

definition is_AZ :: "char \<Rightarrow> bool" where
  \<comment> \<open>the class \<^verbatim>\<open>[A-Z]\<close>\<close>
  "is_AZ c = (c \<in> set ''ABCDEFGHIJKLMNOPQRSTUVWXYZ'')"

definition is_digit :: "char \<Rightarrow> bool" where
  \<comment> \<open>the class \<^verbatim>\<open>\d\<close>\<close>
  "is_digit c = (c \<in> set ''0123456789'')"

definition upper_char :: "char \<Rightarrow> char" where
  "upper_char c =
     (case map_of (zip ''abcdefghijklmnopqrstuvwxyz'' ''ABCDEFGHIJKLMNOPQRSTUVWXYZ'') c of
        Some u \<Rightarrow> u | None \<Rightarrow> c)"

definition lower_char :: "char \<Rightarrow> char" where
  "lower_char c =
     (case map_of (zip ''ABCDEFGHIJKLMNOPQRSTUVWXYZ'' ''abcdefghijklmnopqrstuvwxyz'') c of
        Some l \<Rightarrow> l | None \<Rightarrow> c)"

definition upper :: "string \<Rightarrow> string" where
  "upper s = map upper_char s"

definition lower :: "string \<Rightarrow> string" where
  "lower s = map lower_char s"

definition strip :: "string \<Rightarrow> string" where
  "strip s = rev (dropWhile is_space (rev (dropWhile is_space s)))"

definition newline :: char where
  "newline = CHR 0x0A"

section \<open>Exceptions\<close>

text \<open>
  A computation that may raise has a result of type \<open>py_exn + 'a\<close>, with \<open>Inl e\<close> for the
  exception \<open>e\<close>; \<open>re_error\<close> is \<^verbatim>\<open>re.error\<close>.  Statements in sequence stop at the first
  exception.  \<^verbatim>\<open>try\<close> with \<^verbatim>\<open>except Exception\<close> hands every exception of its body to its
  handler, \<^verbatim>\<open>try\<close> with \<^verbatim>\<open>except re.error\<close> hands \<open>re_error\<close> to its handler and lets the
  others through.
\<close>

datatype py_exn = ValueError | TypeError | OverflowError | RecursionError | re_error

definition and_then :: "py_exn + 'a \<Rightarrow> ('a \<Rightarrow> py_exn + 'b) \<Rightarrow> py_exn + 'b" where
  "and_then m f = (case m of Inl e \<Rightarrow> Inl e | Inr v \<Rightarrow> f v)"

definition try_except :: "py_exn + 'a \<Rightarrow> (py_exn \<Rightarrow> py_exn + 'a) \<Rightarrow> py_exn + 'a" where
  "try_except body handler = (case body of Inl e \<Rightarrow> handler e | Inr v \<Rightarrow> Inr v)"

definition try_except_re_error :: "py_exn + 'a \<Rightarrow> py_exn + 'a \<Rightarrow> py_exn + 'a" where
  "try_except_re_error body handler =
     (case body of Inl e \<Rightarrow> if e = re_error then handler else Inl e | Inr v \<Rightarrow> Inr v)"

section \<open>normalizer.py\<close>

subsection \<open>Rule table\<close>

text \<open>
  One entry of \<^verbatim>\<open>mappings.json\<close>.  A field is \<open>None\<close> when the key is missing (for
  \<open>pattern\<close> and \<open>vacina_normalizada\<close> also when its value is \<^verbatim>\<open>null\<close>).
\<close>

record rule =
  pattern :: "string option"
  vacina_normalizada :: "string option"
  priority :: "int option"

record normalizer =
  mappings :: "rule list"

definition priority_key :: "rule \<Rightarrow> int" where
  \<comment> \<open>\<^verbatim>\<open>lambda x: x.get("priority", 100)\<close>\<close>
  "priority_key x = (case priority x of Some p \<Rightarrow> p | None \<Rightarrow> 100)"

definition load_mappings :: "rule list option \<Rightarrow> rule list" where
  \<comment> \<open>the argument is the parsed file, \<open>None\<close> when the file does not exist;
      \<^verbatim>\<open>sorted\<close> is a stable sort, as \<^const>\<open>sort_key\<close> is\<close>
  "load_mappings file = (case file of None \<Rightarrow> [] | Some data \<Rightarrow> sort_key priority_key data)"

definition init_normalizer :: "rule list option \<Rightarrow> normalizer" where
  "init_normalizer file = \<lparr>mappings = load_mappings file\<rparr>"

subsection \<open>normalize\_sigla\<close>

definition is_ses_sep :: "char \<Rightarrow> bool" where
  \<comment> \<open>the class \<^verbatim>\<open>[\-\s./]\<close>\<close>
  "is_ses_sep c = (c = CHR ''-'' \<or> is_space c \<or> c = CHR ''.'' \<or> c = CHR ''/'')"

definition sub_ses_prefix :: "string \<Rightarrow> string" where
  \<comment> \<open>\<^verbatim>\<open>re.sub(r"^SES[\-\s./]*", "", s)\<close>: the pattern can match at position 0 only,
      and the star is greedy\<close>
  "sub_ses_prefix s = (if prefix ''SES'' s then dropWhile is_ses_sep (drop 3 s) else s)"

fun search_upper2_eol :: "string \<Rightarrow> string option" where
  \<comment> \<open>\<^verbatim>\<open>re.search(r"([A-Z]{2})$", s)\<close>, group 1: start positions from the left;
      \<^verbatim>\<open>$\<close> holds at the end of the text and before a line feed that ends the text\<close>
  "search_upper2_eol (a # b # rest) =
     (if is_AZ a \<and> is_AZ b \<and> (rest = [] \<or> rest = [newline]) then Some [a, b]
      else search_upper2_eol (b # rest))"
| "search_upper2_eol [a] = None"
| "search_upper2_eol [] = None"

definition normalize_sigla :: "string option \<Rightarrow> string option" where
  "normalize_sigla tx_sigla =
     (case tx_sigla of
        None \<Rightarrow> None
      | Some t \<Rightarrow>
          if t = [] then None
          else let s = upper (strip t);
                   s = sub_ses_prefix s
               in (case search_upper2_eol s of
                     Some g \<Rightarrow> Some g
                   | None \<Rightarrow> if s \<noteq> [] then Some (take 2 s) else None))"

subsection \<open>normalize\_insumo\<close>

text \<open>
  The rule patterns are regular expressions read from the configuration, so the matcher
  of \<^verbatim>\<open>re\<close> is a parameter: \<open>re pat tx\<close> stands for
  \<^verbatim>\<open>re.search(pat, tx, flags=re.IGNORECASE)\<close> taken as a truth value, \<open>Inr found\<close> telling
  whether there is a match.  It raises \<open>re_error\<close> for a pattern that is not a regular
  expression; it can raise other exceptions too (\<^verbatim>\<open>OverflowError\<close> for a repetition count
  beyond the limit of the engine, \<^verbatim>\<open>RecursionError\<close> for a pattern nested too deep).
\<close>

type_synonym re_search = "string \<Rightarrow> string \<Rightarrow> py_exn + bool"

definition rule_step :: "re_search \<Rightarrow> string \<Rightarrow> rule \<Rightarrow> py_exn + string option option" where
  \<comment> \<open>the body of the loop \<^verbatim>\<open>for m in self.mappings\<close>: \<open>Inr (Some label)\<close> when it returns
      \<^verbatim>\<open>m.get("vacina_normalizada")\<close>, \<open>Inr None\<close> when it comes to its end\<close>
  "rule_step re tx m =
     (let pat = (case pattern m of Some p \<Rightarrow> p | None \<Rightarrow> [])
      in try_except_re_error
           (if pat \<noteq> [] then
              and_then (re pat tx) (\<lambda>found.
                Inr (if found then Some (vacina_normalizada m) else None))
            else Inr None)
           (Inr (if pat \<noteq> [] \<and> sublist (lower pat) (lower tx) then Some (vacina_normalizada m)
                 else None)))"

fun match_mappings :: "re_search \<Rightarrow> string \<Rightarrow> rule list \<Rightarrow> py_exn + string option option" where
  \<comment> \<open>the loop: \<open>Inr (Some label)\<close> when it returns, \<open>Inr None\<close> when it runs to its end\<close>
  "match_mappings re tx [] = Inr None"
| "match_mappings re tx (m # ms) =
     and_then (rule_step re tx m) (\<lambda>returned.
       case returned of
         Some label \<Rightarrow> Inr (Some label)
       | None \<Rightarrow> match_mappings re tx ms)"

text \<open>
  The pattern \<^verbatim>\<open>VACINA(?:\s*(?:P/|PARA|CONTRA)\s*)?(.*)$\<close> is translated piece by piece.  Only
  the longest choice of each star is written out, since a shorter one adds no match: after
  fewer white-space characters the keyword cannot start, and \<^verbatim>\<open>(.*)$\<close>, which fails only
  when a line feed stands before the last character of the rest, fails on every longer
  rest as well.
\<close>

definition dot_star_eol :: "string \<Rightarrow> string option" where
  \<comment> \<open>\<^verbatim>\<open>(.*)$\<close> at one position, group 1: the dot stops at a line feed, and \<^verbatim>\<open>$\<close>
      holds at the end of the text and before a line feed that ends the text\<close>
  "dot_star_eol r =
     (let g = takeWhile (\<lambda>c. c \<noteq> newline) r;
          rest = dropWhile (\<lambda>c. c \<noteq> newline) r
      in if rest = [] \<or> rest = [newline] then Some g else None)"

definition vacina_keyword :: "string \<Rightarrow> string option" where
  \<comment> \<open>\<^verbatim>\<open>\s*(?:P/|PARA|CONTRA)\s*\<close> at one position, both stars at their longest:
      the text after it\<close>
  "vacina_keyword r =
     (let r1 = dropWhile is_space r
      in if prefix ''P/'' r1 then Some (dropWhile is_space (drop 2 r1))
         else if prefix ''PARA'' r1 then Some (dropWhile is_space (drop 4 r1))
         else if prefix ''CONTRA'' r1 then Some (dropWhile is_space (drop 6 r1))
         else None)"

definition vacina_at :: "string \<Rightarrow> string option" where
  \<comment> \<open>\<^verbatim>\<open>VACINA(?:\s*(?:P/|PARA|CONTRA)\s*)?(.*)$\<close> at one position, group 1: the
      optional group is tried first, then skipped\<close>
  "vacina_at s =
     (if prefix ''VACINA'' s then
        let r = drop 6 s
        in (case vacina_keyword r of
              Some r' \<Rightarrow> (case dot_star_eol r' of Some g \<Rightarrow> Some g | None \<Rightarrow> dot_star_eol r)
            | None \<Rightarrow> dot_star_eol r)
      else None)"

fun search_vacina :: "string \<Rightarrow> string option" where
  \<comment> \<open>\<^verbatim>\<open>re.search\<close> of that pattern: start positions from the left\<close>
  "search_vacina [] = None"
| "search_vacina (c # cs) =
     (case vacina_at (c # cs) of Some g \<Rightarrow> Some g | None \<Rightarrow> search_vacina cs)"

fun after_last_diluente :: "string \<Rightarrow> string option" where
  \<comment> \<open>\<^verbatim>\<open>.*DILUENTE\<close> inside one line: the greedy star gives way from the right, so the
      occurrence that starts last is taken; the text after it\<close>
  "after_last_diluente [] = None"
| "after_last_diluente (c # cs) =
     (case after_last_diluente cs of
        Some r \<Rightarrow> Some r
      | None \<Rightarrow> if prefix ''DILUENTE'' (c # cs) then Some (drop 8 (c # cs)) else None)"

definition diluente_at :: "string \<Rightarrow> string option" where
  \<comment> \<open>\<^verbatim>\<open>.*DILUENTE.*?\<close> at one position: the dot stops at a line feed and the lazy
      star takes nothing; the text after the match\<close>
  "diluente_at s =
     (case after_last_diluente (takeWhile (\<lambda>c. c \<noteq> newline) s) of
        Some r \<Rightarrow> Some (r @ dropWhile (\<lambda>c. c \<noteq> newline) s)
      | None \<Rightarrow> None)"

function sub_diluente :: "string \<Rightarrow> string" where
  \<comment> \<open>\<^verbatim>\<open>re.sub(r".*DILUENTE.*?", "", s)\<close>: from the left, a match is dropped and the
      scan goes on after it, a position without a match keeps its character\<close>
  "sub_diluente [] = []"
| "sub_diluente (c # cs) =
     (case diluente_at (c # cs) of
        Some rest \<Rightarrow> sub_diluente rest
      | None \<Rightarrow> c # sub_diluente cs)"
  by pat_completeness auto
termination
proof (relation "measure length")
  show "wf (measure length)" by simp
next
  fix c :: char and cs rest :: string
  assume a: "diluente_at (c # cs) = Some rest"
  have al: "\<And>s r. after_last_diluente s = Some r \<Longrightarrow> length r < length s"
  proof -
    fix s r show "after_last_diluente s = Some r \<Longrightarrow> length r < length s"
      by (induction s arbitrary: r) (auto split: option.splits if_splits)
  qed
  let ?l = "takeWhile (\<lambda>c. c \<noteq> newline) (c # cs)"
  let ?d = "dropWhile (\<lambda>c. c \<noteq> newline) (c # cs)"
  from a obtain r where r: "after_last_diluente ?l = Some r" "rest = r @ ?d"
    by (auto simp: diluente_at_def split: option.splits)
  have "length ?l + length ?d = length (c # cs)"
    by (metis length_append takeWhile_dropWhile_id)
  with al[OF r(1)] r(2) show "(rest, c # cs) \<in> measure length" by simp
next
  fix c :: char and cs :: string
  show "(cs, c # cs) \<in> measure length" by simp
qed

definition is_removed :: "char \<Rightarrow> bool" where
  \<comment> \<open>the class \<^verbatim>\<open>[\-\(\)\,\d]\<close>\<close>
  "is_removed c = (c = CHR ''-'' \<or> c = CHR ''('' \<or> c = CHR '')'' \<or> c = CHR '','' \<or> is_digit c)"

definition diluente_stage ::
  "re_search \<Rightarrow> normalizer \<Rightarrow> string \<Rightarrow> py_exn + string option option" where
  \<comment> \<open>the block under \<^verbatim>\<open>if "DILUENTE" in tx_upper\<close>: \<open>Inr (Some label)\<close> when it returns\<close>
  "diluente_stage re self tx =
     (let tx_upper = upper tx
      in if sublist ''DILUENTE'' tx_upper then
           let candidate = (case search_vacina tx_upper of
                              Some g \<Rightarrow> strip g
                            | None \<Rightarrow> strip (sub_diluente tx_upper))
           in if candidate \<noteq> [] then
                let candidate = strip (filter (\<lambda>c. \<not> is_removed c) candidate)
                in match_mappings re candidate (mappings self)
              else Inr None
         else Inr None)"

definition lit_sep_lit_at :: "string \<Rightarrow> string \<Rightarrow> string \<Rightarrow> bool" where
  \<comment> \<open>\<^verbatim>\<open>A[- ]?B\<close> at one position, for literals \<open>A\<close> and \<open>B\<close>\<close>
  "lit_sep_lit_at a b s =
     (prefix a s \<and>
      (let r = drop (length a) s
       in (case r of c # r' \<Rightarrow> (c = CHR ''-'' \<or> c = CHR '' '') \<and> prefix b r' | [] \<Rightarrow> False)
          \<or> prefix b r))"

fun search_covid_upper :: "string \<Rightarrow> bool" where
  \<comment> \<open>\<^verbatim>\<open>SARS[- ]?COV2|COVID[- ]?19\<close> searched in upper-cased text\<close>
  "search_covid_upper [] = False"
| "search_covid_upper (c # cs) =
     (lit_sep_lit_at ''SARS'' ''COV2'' (c # cs) \<or> lit_sep_lit_at ''COVID'' ''19'' (c # cs)
      \<or> search_covid_upper cs)"

definition search_covid :: "string \<Rightarrow> bool" where
  \<comment> \<open>\<^verbatim>\<open>re.search(r"SARS[- ]?COV2|COVID[- ]?19", tx, flags=re.IGNORECASE)\<close>: the pattern
      has upper-case letters, digits, the hyphen and the blank only, so on ASCII text
      ignoring case is matching the upper-cased text\<close>
  "search_covid tx = search_covid_upper (upper tx)"

definition normalize_insumo ::
  "re_search \<Rightarrow> normalizer \<Rightarrow> string option \<Rightarrow> py_exn + string option" where
  "normalize_insumo re self tx_insumo =
     (case tx_insumo of
        None \<Rightarrow> Inr None
      | Some t \<Rightarrow>
          if t = [] then Inr None
          else let tx = strip t
               in and_then (match_mappings re tx (mappings self)) (\<lambda>returned.
                    case returned of
                      Some label \<Rightarrow> Inr label
                    | None \<Rightarrow>
                        and_then (diluente_stage re self tx) (\<lambda>returned.
                          case returned of
                            Some label \<Rightarrow> Inr label
                          | None \<Rightarrow> Inr (if search_covid tx then Some ''Covid-19'' else None))))"

section \<open>previsao\_router.py\<close>

subsection \<open>Values\<close>

text \<open>
  The rows come out of a JSON document, so a value is \<^verbatim>\<open>None\<close>, a \<^verbatim>\<open>bool\<close>, an
  \<^verbatim>\<open>int\<close>, a \<^verbatim>\<open>float\<close>, a \<^verbatim>\<open>str\<close>, a \<^verbatim>\<open>list\<close> or a \<^verbatim>\<open>dict\<close> with string keys, kept
  in insertion order.  The type \<open>'f\<close> stands for \<^verbatim>\<open>float\<close>.
\<close>

datatype 'f pyval =
    PNone
  | PBool bool
  | PInt int
  | PFloat 'f
  | PStr string
  | PList "'f pyval list"
  | PDict "(string \<times> 'f pyval) list"

text \<open>
  What the built-in conversions do on strings and floating-point numbers is a parameter
  of the model.
\<close>

record 'f builtins =
  int_of_str :: "string \<Rightarrow> py_exn + int"
  float_of_str :: "string \<Rightarrow> py_exn + 'f"
  float_of_int :: "int \<Rightarrow> py_exn + 'f"
  int_of_float :: "'f \<Rightarrow> py_exn + int"
  float_is_zero :: "'f \<Rightarrow> bool"
  repr_of :: "'f pyval \<Rightarrow> string"

fun py_int :: "'f builtins \<Rightarrow> 'f pyval \<Rightarrow> py_exn + int" where
  \<comment> \<open>\<^verbatim>\<open>int(v)\<close>\<close>
  "py_int b PNone = Inl TypeError"
| "py_int b (PBool x) = Inr (if x then 1 else 0)"
| "py_int b (PInt i) = Inr i"
| "py_int b (PFloat f) = int_of_float b f"
| "py_int b (PStr s) = int_of_str b s"
| "py_int b (PList xs) = Inl TypeError"
| "py_int b (PDict d) = Inl TypeError"

fun py_float :: "'f builtins \<Rightarrow> 'f pyval \<Rightarrow> py_exn + 'f" where
  \<comment> \<open>\<^verbatim>\<open>float(v)\<close>\<close>
  "py_float b PNone = Inl TypeError"
| "py_float b (PBool x) = float_of_int b (if x then 1 else 0)"
| "py_float b (PInt i) = float_of_int b i"
| "py_float b (PFloat f) = Inr f"
| "py_float b (PStr s) = float_of_str b s"
| "py_float b (PList xs) = Inl TypeError"
| "py_float b (PDict d) = Inl TypeError"

definition py_str :: "'f builtins \<Rightarrow> 'f pyval \<Rightarrow> string" where
  \<comment> \<open>\<^verbatim>\<open>str(v)\<close>, which raises on no JSON value\<close>
  "py_str b v = (case v of PStr s \<Rightarrow> s | _ \<Rightarrow> repr_of b v)"



definition dict_get :: "(string \<times> 'f pyval) list \<Rightarrow> string \<Rightarrow> 'f pyval" where
  \<comment> \<open>\<^verbatim>\<open>d.get(k)\<close>\<close>
  "dict_get d k = (case map_of d k of Some v \<Rightarrow> v | None \<Rightarrow> PNone)"

subsection \<open>\_normalize\_row\<close>

definition ano_keys :: "string list" where
  "ano_keys = [''ano'', ''year'', ''f0'', ''0'', ''ano_val'']"

definition qty_keys :: "string list" where
  "qty_keys = [''quantidade'', ''quant'', ''qtde'', ''f1'', ''1'', ''quantidade_val'']"

definition tipo_keys :: "string list" where
  "tipo_keys = [''tipo_dado'', ''tipo'', ''f2'', ''2'']"

fun pick :: "(string \<times> 'f pyval) list \<Rightarrow> string list \<Rightarrow> 'f pyval" where
  \<comment> \<open>the local function \<^verbatim>\<open>_pick\<close> on the dictionary \<^verbatim>\<open>item\<close>\<close>
  "pick item [] = PNone"
| "pick item (k # keys) =
     (if map_of item k \<noteq> None \<and> dict_get item k \<noteq> PNone then dict_get item k
      else pick item keys)"

definition row_fields :: "'f pyval \<Rightarrow> ('f pyval \<times> 'f pyval \<times> 'f pyval) option" where
  \<comment> \<open>the first half of \<^verbatim>\<open>_normalize_row\<close>: the locals \<^verbatim>\<open>(ano, quantidade, tipo)\<close> on
      reaching the coercions (here with the suffix \<open>_v\<close>), \<open>None\<close> when the function has
      returned \<^verbatim>\<open>None\<close> before\<close>
  "row_fields item =
     (case item of
        PNone \<Rightarrow> None
      | PDict d \<Rightarrow>
          let ano_v = pick d ano_keys;
              quantidade_v = pick d qty_keys;
              tipo_v = pick d tipo_keys
          in if ano_v = PNone \<or> quantidade_v = PNone then
               let vals = map snd d
               in if 2 \<le> length vals then
                    Some (if ano_v = PNone then vals ! 0 else ano_v,
                          if quantidade_v = PNone \<and> 2 \<le> length vals then vals ! 1
                          else quantidade_v,
                          if tipo_v = PNone \<and> 3 \<le> length vals then vals ! 2 else tipo_v)
                  else Some (ano_v, quantidade_v, tipo_v)
             else Some (ano_v, quantidade_v, tipo_v)
      | PList xs \<Rightarrow>
          if 2 \<le> length xs then Some (xs ! 0, xs ! 1, if 2 < length xs then xs ! 2 else PNone)
          else None
      | _ \<Rightarrow> None)"

record 'f row =
  ano :: "int option"
  quantidade :: "'f option"
  tipo_dado :: "string option"

definition coerce_ano :: "'f builtins \<Rightarrow> 'f pyval \<Rightarrow> py_exn + int option" where
  \<comment> \<open>the first \<^verbatim>\<open>try\<close> statement, with the \<^verbatim>\<open>try\<close> statement inside its handler:
      the value of \<^verbatim>\<open>ano_int\<close>\<close>
  "coerce_ano b ano_v =
     try_except
       (if ano_v \<noteq> PNone then and_then (py_int b ano_v) (\<lambda>i. Inr (Some i)) else Inr None)
       (\<lambda>e. try_except
              (and_then (py_float b ano_v) (\<lambda>f. and_then (int_of_float b f) (\<lambda>i. Inr (Some i))))
              (\<lambda>e'. Inr None))"

definition coerce_quantidade :: "'f builtins \<Rightarrow> 'f pyval \<Rightarrow> py_exn + 'f option" where
  \<comment> \<open>the second \<^verbatim>\<open>try\<close> statement: the value of \<^verbatim>\<open>quantidade_num\<close>\<close>
  "coerce_quantidade b quantidade_v =
     try_except
       (if quantidade_v \<noteq> PNone then and_then (py_float b quantidade_v) (\<lambda>f. Inr (Some f))
        else Inr None)
       (\<lambda>e. Inr None)"

definition normalize_row :: "'f builtins \<Rightarrow> 'f pyval \<Rightarrow> py_exn + 'f row option" where
  \<comment> \<open>\<open>Inl e\<close> is an exception that leaves the function\<close>
  "normalize_row b item =
     (case row_fields item of
        None \<Rightarrow> Inr None
      | Some (ano_v, quantidade_v, tipo_v) \<Rightarrow>
          and_then (coerce_ano b ano_v) (\<lambda>ano_int.
          and_then (coerce_quantidade b quantidade_v) (\<lambda>quantidade_num.
            let tipo_str = (if tipo_v \<noteq> PNone then Some (py_str b tipo_v) else None)
            in if ano_int = None \<and> quantidade_num = None \<and> tipo_str = None then Inr None
               else Inr (Some \<lparr>ano = ano_int, quantidade = quantidade_num,
                                tipo_dado = tipo_str\<rparr>))))"

subsection \<open>The response of previsao\<close>






section \<open>Reference definitions\<close>

text \<open>
  The functions of this section are written from the prose description of the
  normalizers, not from the code; the theorems further down compare the two.
\<close>

definition normalizeSigla_spec :: "string option \<Rightarrow> string option" where
  "normalizeSigla_spec text =
     (case text of
        None \<Rightarrow> None
      | Some t \<Rightarrow>
          if t = [] then None
          else let s = upper (strip t);
                   rest = (if prefix ''SES'' s then dropWhile is_ses_sep (drop 3 s) else s);
                   tail2 = drop (length rest - 2) rest
               in if 2 \<le> length rest \<and> list_all is_AZ tail2 then Some tail2
                  else if rest = [] then None
                  else Some (take 2 rest))"

definition rule_matches :: "re_search \<Rightarrow> string \<Rightarrow> rule \<Rightarrow> bool" where
  \<comment> \<open>a rule matches a text: its pattern is not empty and the regular-expression search
      finds it, or the search raises \<open>re_error\<close> and the pattern is contained in the text,
      case ignored\<close>
  "rule_matches re tx m =
     (case pattern m of
        None \<Rightarrow> False
      | Some pat \<Rightarrow>
          pat \<noteq> [] \<and>
          (re pat tx = Inr True \<or> re pat tx = Inl re_error \<and> sublist (lower pat) (lower tx)))"

definition rule_misses :: "re_search \<Rightarrow> string \<Rightarrow> rule \<Rightarrow> bool" where
  \<comment> \<open>a rule is passed over: its pattern is empty, or the search finds nothing, or the
      search raises \<open>re_error\<close> and the pattern is not contained in the text, case ignored\<close>
  "rule_misses re tx m =
     (case pattern m of
        None \<Rightarrow> True
      | Some pat \<Rightarrow>
          pat = [] \<or> re pat tx = Inr False \<or>
          re pat tx = Inl re_error \<and> \<not> sublist (lower pat) (lower tx))"

definition covid_marker :: "string \<Rightarrow> bool" where
  \<comment> \<open>the text has \<^verbatim>\<open>SARS\<close> and \<^verbatim>\<open>COV2\<close>, or \<^verbatim>\<open>COVID\<close> and \<^verbatim>\<open>19\<close>, with nothing, a hyphen or
      a blank between them, case ignored\<close>
  "covid_marker tx =
     (let u = upper tx
      in sublist ''SARSCOV2'' u \<or> sublist ''SARS-COV2'' u \<or> sublist ''SARS COV2'' u \<or>
         sublist ''COVID19'' u \<or> sublist ''COVID-19'' u \<or> sublist ''COVID 19'' u)"

fun after_first :: "string \<Rightarrow> string \<Rightarrow> string option" where
  \<comment> \<open>the text after the first occurrence of a token\<close>
  "after_first tok [] = (if tok = [] then Some [] else None)"
| "after_first tok (c # cs) =
     (if prefix tok (c # cs) then Some (drop (length tok) (c # cs)) else after_first tok cs)"

fun after_last :: "string \<Rightarrow> string \<Rightarrow> string option" where
  \<comment> \<open>the text after the last occurrence of a token\<close>
  "after_last tok [] = (if tok = [] then Some [] else None)"
| "after_last tok (c # cs) =
     (case after_last tok cs of
        Some r \<Rightarrow> Some r
      | None \<Rightarrow> if prefix tok (c # cs) then Some (drop (length tok) (c # cs)) else None)"

definition skip_keyword :: "string \<Rightarrow> string" where
  \<comment> \<open>drops \<^verbatim>\<open>P/\<close>, \<^verbatim>\<open>PARA\<close> or \<^verbatim>\<open>CONTRA\<close> when the text starts with one of them, white
      space before it apart\<close>
  "skip_keyword r =
     (let r1 = dropWhile is_space r
      in if prefix ''P/'' r1 then drop 2 r1
         else if prefix ''PARA'' r1 then drop 4 r1
         else if prefix ''CONTRA'' r1 then drop 6 r1
         else r)"

definition candidate_claimed :: "string \<Rightarrow> string" where
  \<comment> \<open>the candidate with the text after the first \<^verbatim>\<open>DILUENTE\<close>\<close>
  "candidate_claimed u =
     (case after_first ''VACINA'' u of
        Some r \<Rightarrow> skip_keyword r
      | None \<Rightarrow> (case after_first ''DILUENTE'' u of Some r \<Rightarrow> r | None \<Rightarrow> []))"

definition candidate_amended :: "string \<Rightarrow> string" where
  \<comment> \<open>the candidate with the text after the last \<^verbatim>\<open>DILUENTE\<close>\<close>
  "candidate_amended u =
     (case after_first ''VACINA'' u of
        Some r \<Rightarrow> skip_keyword r
      | None \<Rightarrow> (case after_last ''DILUENTE'' u of Some r \<Rightarrow> r | None \<Rightarrow> []))"

definition clean_candidate :: "string \<Rightarrow> string" where
  \<comment> \<open>hyphens, parentheses, commas and digits removed, then trimmed\<close>
  "clean_candidate c = strip (filter (\<lambda>x. x \<notin> set ''-(),0123456789'') c)"

definition first_present :: "(string \<times> 'f pyval) list \<Rightarrow> string list \<Rightarrow> 'f pyval" where
  \<comment> \<open>the value under the first key of the list that the mapping has\<close>
  "first_present d keys =
     (case find (\<lambda>k. map_of d k \<noteq> None) keys of Some k \<Rightarrow> dict_get d k | None \<Rightarrow> PNone)"

definition first_non_null :: "(string \<times> 'f pyval) list \<Rightarrow> string list \<Rightarrow> 'f pyval" where
  \<comment> \<open>the value under the first key of the list that the mapping has with a value other
      than \<^verbatim>\<open>None\<close>\<close>
  "first_non_null d keys =
     (case find (\<lambda>k. map_of d k \<noteq> None \<and> map_of d k \<noteq> Some PNone) keys of
        Some k \<Rightarrow> dict_get d k
      | None \<Rightarrow> PNone)"

definition fill_by_position ::
  "'f pyval list \<Rightarrow> 'f pyval \<times> 'f pyval \<times> 'f pyval \<Rightarrow> 'f pyval \<times> 'f pyval \<times> 'f pyval" where
  \<comment> \<open>the first value for an absent year, the second for an absent quantity, the third
      for an absent data kind, each when there is such a value\<close>
  "fill_by_position vals f =
     (case f of (y, q, k) \<Rightarrow>
        (if y = PNone \<and> 1 \<le> length vals then vals ! 0 else y,
         if q = PNone \<and> 2 \<le> length vals then vals ! 1 else q,
         if k = PNone \<and> 3 \<le> length vals then vals ! 2 else k))"

definition sequence_fields :: "'f pyval list \<Rightarrow> ('f pyval \<times> 'f pyval \<times> 'f pyval) option" where
  \<comment> \<open>the fields of an ordered sequence\<close>
  "sequence_fields xs =
     (if 2 \<le> length xs then Some (xs ! 0, xs ! 1, if 3 \<le> length xs then xs ! 2 else PNone)
      else None)"

definition row_fields_claimed :: "'f pyval \<Rightarrow> ('f pyval \<times> 'f pyval \<times> 'f pyval) option" where
  \<comment> \<open>key lookup by the first present key, positional inference whenever year or
      quantity is absent\<close>
  "row_fields_claimed item =
     (case item of
        PDict d \<Rightarrow>
          let y = first_present d ano_keys;
              q = first_present d qty_keys;
              k = first_present d tipo_keys
          in if y = PNone \<or> q = PNone then Some (fill_by_position (map snd d) (y, q, k))
             else Some (y, q, k)
      | PList xs \<Rightarrow> sequence_fields xs
      | _ \<Rightarrow> None)"

definition row_fields_amended :: "'f pyval \<Rightarrow> ('f pyval \<times> 'f pyval \<times> 'f pyval) option" where
  \<comment> \<open>key lookup by the first key with a value other than \<^verbatim>\<open>None\<close>, positional
      inference only in a mapping of two values or more\<close>
  "row_fields_amended item =
     (case item of
        PDict d \<Rightarrow>
          let y = first_non_null d ano_keys;
              q = first_non_null d qty_keys;
              k = first_non_null d tipo_keys
          in if (y = PNone \<or> q = PNone) \<and> 2 \<le> length d
             then Some (fill_by_position (map snd d) (y, q, k))
             else Some (y, q, k)
      | PList xs \<Rightarrow> sequence_fields xs
      | _ \<Rightarrow> None)"

definition year_of :: "'f builtins \<Rightarrow> 'f pyval \<Rightarrow> int option" where
  \<comment> \<open>integer coercion, then a floating-point parse and truncation, else absent\<close>
  "year_of b v =
     (if v = PNone then None
      else case py_int b v of
             Inr i \<Rightarrow> Some i
           | Inl e \<Rightarrow>
               (case py_float b v of
                  Inr f \<Rightarrow> (case int_of_float b f of Inr i \<Rightarrow> Some i | Inl e' \<Rightarrow> None)
                | Inl e' \<Rightarrow> None))"

definition quantity_of :: "'f builtins \<Rightarrow> 'f pyval \<Rightarrow> 'f option" where
  \<comment> \<open>floating-point coercion, else absent\<close>
  "quantity_of b v =
     (if v = PNone then None else case py_float b v of Inr f \<Rightarrow> Some f | Inl e \<Rightarrow> None)"

definition kind_of :: "'f builtins \<Rightarrow> 'f pyval \<Rightarrow> string option" where
  \<comment> \<open>text coercion; absent stays absent\<close>
  "kind_of b v = (if v = PNone then None else Some (py_str b v))"

definition canonical_row :: "'f builtins \<Rightarrow> 'f pyval \<times> 'f pyval \<times> 'f pyval \<Rightarrow> 'f row option" where
  \<comment> \<open>the record of the three coerced fields, or \<open>None\<close> when all three are absent\<close>
  "canonical_row b f =
     (case f of (y, q, k) \<Rightarrow>
        if year_of b y = None \<and> quantity_of b q = None \<and> kind_of b k = None then None
        else Some \<lparr>ano = year_of b y, quantidade = quantity_of b q, tipo_dado = kind_of b k\<rparr>)"


section \<open>Auxiliary definitions\<close>


section \<open>Sample inputs\<close>

text \<open>
  The instances of the theorems below are computed on these.  \<open>lit_re\<close> stands in for
  \<^verbatim>\<open>re.search\<close> with \<^verbatim>\<open>re.IGNORECASE\<close> on the patterns the samples use: a pattern of letters
  and blanks matches where it occurs, case ignored; for every other pattern \<open>lit_re\<close>
  raises \<open>re_error\<close>, which is what \<^verbatim>\<open>re\<close> does for the one other pattern used, \<^verbatim>\<open>(\<close>, an
  unterminated group.
\<close>

definition lit_re :: re_search where
  "lit_re pat tx =
     (if list_all (\<lambda>c. c \<in> set ''ABCDEFGHIJKLMNOPQRSTUVWXYZ abcdefghijklmnopqrstuvwxyz'') pat
      then Inr (sublist (upper pat) (upper tx))
      else Inl re_error)"

definition rule_bcg :: rule where
  "rule_bcg = \<lparr>pattern = Some ''BCG'', vacina_normalizada = Some ''BCG'', priority = Some 1\<rparr>"

definition rule_generic :: rule where
  "rule_generic = \<lparr>pattern = Some ''VACINA'', vacina_normalizada = Some ''Generic'', priority = Some 2\<rparr>"





text \<open>
  \<open>sample_builtins\<close> gives the conversions on small inputs, with \<^typ>\<open>rat\<close> for
  \<^verbatim>\<open>float\<close>: on unsigned decimal literals such as \<^verbatim>\<open>2021\<close> and \<^verbatim>\<open>150.5\<close>, whose values
  a \<^verbatim>\<open>float\<close> holds exactly, and on integers below \<open>2 ^ 53\<close>, it computes what
  \<^verbatim>\<open>int\<close> and \<^verbatim>\<open>float\<close> compute; \<^verbatim>\<open>int("2021.0")\<close> and \<^verbatim>\<open>float("abc")\<close> raise
  \<^verbatim>\<open>ValueError\<close> in both.  The samples use no other strings, and call \<open>repr_of\<close> on no
  value.
\<close>

definition digit_of :: "char \<Rightarrow> nat option" where
  "digit_of c = map_of (zip ''0123456789'' [0, 1, 2, 3, 4, 5, 6, 7, 8, 9]) c"

fun nat_of_digits :: "nat \<Rightarrow> string \<Rightarrow> nat option" where
  "nat_of_digits acc [] = Some acc"
| "nat_of_digits acc (c # cs) =
     (case digit_of c of Some d \<Rightarrow> nat_of_digits (10 * acc + d) cs | None \<Rightarrow> None)"

definition sample_int_of_str :: "string \<Rightarrow> py_exn + int" where
  "sample_int_of_str s =
     (if s = [] then Inl ValueError
      else case nat_of_digits 0 s of Some n \<Rightarrow> Inr (int n) | None \<Rightarrow> Inl ValueError)"

definition sample_float_of_str :: "string \<Rightarrow> py_exn + rat" where
  "sample_float_of_str s =
     (let ip = takeWhile (\<lambda>c. c \<noteq> CHR ''.'') s;
          fp = drop 1 (dropWhile (\<lambda>c. c \<noteq> CHR ''.'') s)
      in if ip = [] \<and> fp = [] then Inl ValueError
         else case (nat_of_digits 0 ip, nat_of_digits 0 fp) of
                (Some i, Some f) \<Rightarrow> Inr (of_nat i + of_nat f / 10 ^ length fp)
              | _ \<Rightarrow> Inl ValueError)"

definition sample_builtins :: "rat builtins" where
  "sample_builtins =
     \<lparr>int_of_str = sample_int_of_str,
      float_of_str = sample_float_of_str,
      float_of_int = (\<lambda>i. Inr (of_int i)),
      int_of_float = (\<lambda>f. Inr (if 0 \<le> f then \<lfloor>f\<rfloor> else \<lceil>f\<rceil>)),
      float_is_zero = (\<lambda>f. f = 0),
      repr_of = (\<lambda>v. case v of PBool x \<Rightarrow> (if x then ''True'' else ''False'') | _ \<Rightarrow> ''None'')\<rparr>"



section \<open>Facts about the text primitives\<close>

lemma rstrip_Cons: "\<not> P x \<Longrightarrow> rev (dropWhile P (rev (x # xs))) = x # rev (dropWhile P (rev xs))"
  by (auto simp: dropWhile_append)


lemma strip_hd: "strip s \<noteq> [] \<Longrightarrow> \<not> is_space (hd (strip s))"
proof -
  assume a: "strip s \<noteq> []"
  let ?d = "dropWhile is_space s"
  have d: "?d \<noteq> []" using a unfolding strip_def by (cases "dropWhile is_space s") auto
  then have h: "\<not> is_space (hd ?d)" by (rule hd_dropWhile)
  from d obtain x xs where e: "?d = x # xs" by (cases ?d) auto
  with h have "\<not> is_space x" by simp
  then have "strip s = x # rev (dropWhile is_space (rev xs))"
    using e by (simp add: strip_def rstrip_Cons del: rev.simps)
  then show ?thesis using \<open>\<not> is_space x\<close> by simp
qed

lemma strip_id: "s \<noteq> [] \<Longrightarrow> \<not> is_space (hd s) \<Longrightarrow> \<not> is_space (last s) \<Longrightarrow> strip s = s"
proof -
  assume a: "s \<noteq> []" "\<not> is_space (hd s)" "\<not> is_space (last s)"
  then have 1: "dropWhile is_space s = s" by (cases s) auto
  have "rev s \<noteq> []" "\<not> is_space (hd (rev s))" using a by (auto simp: hd_rev)
  then have "dropWhile is_space (rev s) = rev s" by (cases "rev s") auto
  with 1 show ?thesis by (simp add: strip_def)
qed


lemma upper_char_idem: "upper_char (upper_char c) = upper_char c"
  by (simp add: upper_char_def)

lemma upper_char_space: "is_space (upper_char c) = is_space c"
  by (auto simp add: upper_char_def is_space_def)

lemma upper_char_AZ: "is_AZ c \<Longrightarrow> upper_char c = c"
  unfolding is_AZ_def upper_char_def
  by (simp, elim disjE; simp)

lemma AZ_not_space: "is_AZ c \<Longrightarrow> \<not> is_space c"
  unfolding is_AZ_def is_space_def by (simp, elim disjE; simp)

section \<open>Facts about normalize\_sigla\<close>


lemma search_upper2_eol_len: "search_upper2_eol s = Some g \<Longrightarrow> length g = 2"
  by (induction s rule: search_upper2_eol.induct) (auto split: if_splits)

lemma search_upper2_eol_AZ: "search_upper2_eol s = Some g \<Longrightarrow> list_all is_AZ g"
  by (induction s rule: search_upper2_eol.induct) (auto split: if_splits)

lemma sub_ses_prefix_suffix: "suffix (sub_ses_prefix s) s"
  using suffix_order.trans[OF suffix_dropWhile suffix_drop, of is_ses_sep 3 s]
  by (simp add: sub_ses_prefix_def)


lemma sub_ses_prefix_hd:
  "s \<noteq> [] \<longrightarrow> \<not> is_space (hd s) \<Longrightarrow> sub_ses_prefix s \<noteq> [] \<Longrightarrow> \<not> is_space (hd (sub_ses_prefix s))"
proof (cases "prefix ''SES'' s")
  case True
  assume "sub_ses_prefix s \<noteq> []"
  then have "\<not> is_ses_sep (hd (sub_ses_prefix s))"
    using True hd_dropWhile[of is_ses_sep "drop 3 s"] by (simp add: sub_ses_prefix_def)
  then show ?thesis by (simp add: is_ses_sep_def)
next
  case False
  assume "s \<noteq> [] \<longrightarrow> \<not> is_space (hd s)" "sub_ses_prefix s \<noteq> []"
  then show ?thesis using False by (simp add: sub_ses_prefix_def)
qed


lemma upper_strip_hd: "upper (strip t) \<noteq> [] \<Longrightarrow> \<not> is_space (hd (upper (strip t)))"
  using strip_hd[of t] by (simp add: upper_def hd_map upper_char_space)


lemma sigla_rest_hd:
  assumes "sub_ses_prefix (upper (strip t)) \<noteq> []"
  shows "\<not> is_space (hd (sub_ses_prefix (upper (strip t))))"
  using assms upper_strip_hd[of t] by (intro sub_ses_prefix_hd) auto

lemma sigla_rest_upper:
  "c \<in> set (sub_ses_prefix (upper (strip t))) \<Longrightarrow> upper_char c = c"
proof -
  assume "c \<in> set (sub_ses_prefix (upper (strip t)))"
  then have "c \<in> set (upper (strip t))"
    using set_mono_suffix[OF sub_ses_prefix_suffix[of "upper (strip t)"]] by auto
  then show ?thesis by (auto simp: upper_def upper_char_idem)
qed

lemma normalize_sigla_two_AZ:
  assumes "is_AZ a" "is_AZ b"
  shows "normalize_sigla (Some [a, b]) = Some [a, b]"
proof -
  have "strip [a, b] = [a, b]" using assms by (intro strip_id) (auto dest: AZ_not_space)
  moreover have "upper [a, b] = [a, b]" using assms by (simp add: upper_def upper_char_AZ)
  moreover have "sub_ses_prefix [a, b] = [a, b]" by (simp add: sub_ses_prefix_def)
  ultimately show ?thesis using assms by (simp add: normalize_sigla_def)
qed

lemma normalize_sigla_one:
  "\<not> is_space a \<Longrightarrow> upper_char a = a \<Longrightarrow> normalize_sigla (Some [a]) = Some [a]"
  by (simp add: normalize_sigla_def strip_def upper_def sub_ses_prefix_def)

lemma normalize_sigla_two:
  "\<not> is_space a \<Longrightarrow> \<not> is_space b \<Longrightarrow> upper_char a = a \<Longrightarrow> upper_char b = b \<Longrightarrow>
   normalize_sigla (Some [a, b]) = Some [a, b]"
  by (simp add: normalize_sigla_def strip_def upper_def sub_ses_prefix_def Let_def)

lemma normalize_sigla_two_space:
  "\<not> is_space a \<Longrightarrow> is_space b \<Longrightarrow> upper_char a = a \<Longrightarrow>
   normalize_sigla (Some [a, b]) = Some [a]"
  by (simp add: normalize_sigla_def strip_def upper_def sub_ses_prefix_def)

section \<open>Facts about the rule loop\<close>


lemma rule_step_misses: "rule_misses re tx m \<Longrightarrow> rule_step re tx m = Inr None"
  by (auto simp: rule_misses_def rule_step_def try_except_re_error_def and_then_def
           split: option.splits)

lemma rule_step_cases:
  "rule_step re tx m = Inr r \<Longrightarrow>
   (r = Some (vacina_normalizada m) \<and> rule_matches re tx m) \<or> (r = None \<and> rule_misses re tx m)"
  by (cases "pattern m"; cases "re (the (pattern m)) tx")
     (auto simp: rule_matches_def rule_misses_def rule_step_def try_except_re_error_def
        and_then_def split: if_splits)


lemma match_mappings_None:
  "match_mappings re tx ms = Inr None \<longleftrightarrow> list_all (rule_misses re tx) ms"
proof (induction ms)
  case Nil
  then show ?case by simp
next
  case (Cons m ms)
  show ?case
  proof (cases "rule_step re tx m")
    case (Inl e)
    then have "\<not> rule_misses re tx m" using rule_step_misses[of re tx m] by auto
    then show ?thesis using Inl by (simp add: and_then_def)
  next
    case (Inr r)
    then show ?thesis using rule_step_cases[OF Inr] Cons rule_step_misses[of re tx m]
      by (auto simp: and_then_def)
  qed
qed

lemma match_mappings_label:
  "match_mappings re tx ms = Inr (Some (Some l)) \<Longrightarrow> \<exists>m\<in>set ms. vacina_normalizada m = Some l"
proof (induction ms)
  case Nil
  then show ?case by simp
next
  case (Cons m ms)
  show ?case
  proof (cases "rule_step re tx m")
    case (Inl e)
    then show ?thesis using Cons.prems by (simp add: and_then_def)
  next
    case (Inr r)
    then show ?thesis using rule_step_cases[OF Inr] Cons
      by (auto simp: and_then_def)
  qed
qed



section \<open>Facts about the fallback pattern\<close>

lemma prefix_append_iff: "prefix (a @ b) s \<longleftrightarrow> prefix a s \<and> prefix b (drop (length a) s)"
  by (metis append_eq_conv_conj prefix_def prefixE prefixI append.assoc  append_take_drop_id)

lemma lit_sep_lit_at_iff:
  "lit_sep_lit_at a b s \<longleftrightarrow>
     prefix (a @ b) s \<or> prefix (a @ CHR ''-'' # b) s \<or> prefix (a @ CHR '' '' # b) s"
  by (auto simp: lit_sep_lit_at_def prefix_append_iff Let_def split: list.splits)

lemma search_covid_upper_iff:
  "search_covid_upper u \<longleftrightarrow>
     sublist ''SARSCOV2'' u \<or> sublist ''SARS-COV2'' u \<or> sublist ''SARS COV2'' u \<or>
     sublist ''COVID19'' u \<or> sublist ''COVID-19'' u \<or> sublist ''COVID 19'' u"
proof (induction u)
  case Nil
  then show ?case by simp
next
  case (Cons c cs)
  have a: "lit_sep_lit_at ''SARS'' ''COV2'' (c # cs) \<longleftrightarrow>
      prefix ''SARSCOV2'' (c # cs) \<or> prefix ''SARS-COV2'' (c # cs) \<or> prefix ''SARS COV2'' (c # cs)"
    using lit_sep_lit_at_iff[of "''SARS''" "''COV2''" "c # cs"] by simp
  have b: "lit_sep_lit_at ''COVID'' ''19'' (c # cs) \<longleftrightarrow>
      prefix ''COVID19'' (c # cs) \<or> prefix ''COVID-19'' (c # cs) \<or> prefix ''COVID 19'' (c # cs)"
    using lit_sep_lit_at_iff[of "''COVID''" "''19''" "c # cs"] by simp
  show ?case
    unfolding search_covid_upper.simps a b Cons.IH sublist_Cons_right by blast
qed

lemma search_covid_marker: "search_covid tx = covid_marker tx"
  by (simp add: search_covid_def covid_marker_def Let_def search_covid_upper_iff)

section \<open>Facts about the DILUENTE block\<close>

lemma strip_decomp:
  "\<exists>ws1 ws2. x = ws1 @ strip x @ ws2 \<and> list_all is_space ws1 \<and> list_all is_space ws2"
proof -
  let ?z = "dropWhile is_space x"
  have 1: "x = takeWhile is_space x @ ?z" by simp
  have "?z = rev (dropWhile is_space (rev ?z)) @ rev (takeWhile is_space (rev ?z))"
    by (metis rev_append rev_rev_ident takeWhile_dropWhile_id)
  then have 2: "?z = strip x @ rev (takeWhile is_space (rev ?z))"
    unfolding strip_def .
  have 3: "list_all is_space (takeWhile is_space x)"
    by (simp add: list_all_iff) (meson set_takeWhileD)
  have 4: "list_all is_space (rev (takeWhile is_space (rev ?z)))"
    by (simp add: list_all_iff) (meson set_takeWhileD)
  from 1 2 have "x = takeWhile is_space x @ strip x @ rev (takeWhile is_space (rev ?z))" by simp
  with 3 4 show ?thesis by blast
qed




lemma set_strip: "set (strip x) \<subseteq> set x"
  using strip_decomp[of x] by (metis (no_types, lifting) Un_iff set_append subsetI)




















section \<open>Facts about the reference definitions\<close>

text \<open>
  \<^const>\<open>after_first\<close> and \<^const>\<open>after_last\<close> cut the text at an occurrence of the token before
  which, respectively after which, no other occurrence starts.
\<close>

lemma after_last_None_iff: "tok \<noteq> [] \<Longrightarrow> after_last tok s = None \<longleftrightarrow> \<not> sublist tok s"
  by (induction s) (auto simp: sublist_Cons_right split: option.splits)

lemma after_last_decomp:
  "tok \<noteq> [] \<Longrightarrow> after_last tok s = Some r \<Longrightarrow>
   \<exists>pre. s = pre @ tok @ r \<and> \<not> sublist tok (tl tok @ r)"
proof (induction s)
  case Nil
  then show ?case by simp
next
  case (Cons c cs)
  show ?case
  proof (cases "after_last tok cs")
    case (Some r')
    then have "r' = r" using Cons.prems by simp
    then obtain pre where "cs = pre @ tok @ r" "\<not> sublist tok (tl tok @ r)"
      using Cons Some by auto
    then have "c # cs = (c # pre) @ tok @ r" by simp
    then show ?thesis using \<open>\<not> sublist tok (tl tok @ r)\<close> by blast
  next
    case None
    then have p: "prefix tok (c # cs)" and r: "r = drop (length tok) (c # cs)"
      using Cons.prems by (auto split: if_splits)
    then have e: "c # cs = tok @ r" by (metis append_eq_conv_conj prefixE)
    then have "cs = tl tok @ r" using Cons.prems(1) by (cases tok) auto
    moreover have "\<not> sublist tok cs" using None Cons.prems(1) by (simp add: after_last_None_iff)
    ultimately have "\<not> sublist tok (tl tok @ r)" by simp
    then show ?thesis using e by (metis append_Nil)
  qed
qed

lemma after_first_decomp:
  "tok \<noteq> [] \<Longrightarrow> after_first tok s = Some r \<Longrightarrow>
   \<exists>pre. s = pre @ tok @ r \<and> \<not> sublist tok (pre @ butlast tok)"
proof (induction s)
  case Nil
  then show ?case by simp
next
  case (Cons c cs)
  show ?case
  proof (cases "prefix tok (c # cs)")
    case True
    then have "r = drop (length tok) (c # cs)" using Cons.prems by simp
    then have e: "c # cs = [] @ tok @ r" using True by (metis append_Nil append_eq_conv_conj prefixE)
    have "length (butlast tok) < length tok" using Cons.prems(1) by (cases tok) auto
    then have "\<not> sublist tok ([] @ butlast tok)"
      by (metis append_Nil leD sublist_length_le)
    then show ?thesis using e by blast
  next
    case False
    then have "after_first tok cs = Some r" using Cons.prems by simp
    then obtain pre where pre: "cs = pre @ tok @ r" "\<not> sublist tok (pre @ butlast tok)"
      using Cons by auto
    have "\<not> prefix tok (c # pre @ butlast tok)"
    proof
      assume "prefix tok (c # pre @ butlast tok)"
      then have "prefix tok ((c # pre @ butlast tok) @ [last tok] @ r)"
        using prefix_prefix by blast
      moreover have "(c # pre @ butlast tok) @ [last tok] @ r = c # cs"
        using pre(1) Cons.prems(1) by simp
      ultimately show False using False by simp
    qed
    then have "\<not> sublist tok ((c # pre) @ butlast tok)"
      using pre(2) by (simp add: sublist_Cons_right)
    moreover have "c # cs = (c # pre) @ tok @ r" using pre(1) by simp
    ultimately show ?thesis by blast
  qed
qed

section \<open>Facts about \_normalize\_row and the response\<close>

lemma pick_first_non_null: "pick d keys = first_non_null d keys"
  by (induction keys) (auto simp: first_non_null_def dict_get_def split: option.splits)

lemma coerce_ano_year_of: "coerce_ano b v = Inr (year_of b v)"
  by (cases "py_int b v"; cases "py_float b v")
     (auto simp: coerce_ano_def year_of_def try_except_def and_then_def split: sum.splits)

lemma coerce_quantidade_quantity_of: "coerce_quantidade b v = Inr (quantity_of b v)"
  by (cases "py_float b v")
     (auto simp: coerce_quantidade_def quantity_of_def try_except_def and_then_def)

lemma normalize_row_canonical:
  "normalize_row b item =
     (case row_fields item of None \<Rightarrow> Inr None | Some f \<Rightarrow> Inr (canonical_row b f))"
  by (cases "row_fields item")
     (auto simp: normalize_row_def canonical_row_def Let_def kind_of_def and_then_def
        coerce_ano_year_of coerce_quantidade_quantity_of)


section \<open>Rewrite rules for the instances\<close>

lemmas text_simps = upper_def upper_char_def lower_def lower_char_def strip_def is_space_def newline_def
  sublist_Cons_right

lemmas exn_simps = and_then_def try_except_def try_except_re_error_def

lemmas insumo_simps = normalize_insumo_def rule_step_def diluente_stage_def search_covid_def
  lit_sep_lit_at_def vacina_at_def vacina_keyword_def dot_star_eol_def diluente_at_def
  is_removed_def is_digit_def rule_matches_def rule_misses_def lit_re_def covid_marker_def
  candidate_claimed_def candidate_amended_def skip_keyword_def clean_candidate_def Let_def
  text_simps exn_simps

lemmas row_simps = normalize_row_def row_fields_def coerce_ano_def coerce_quantidade_def py_str_def
  exn_simps
  dict_get_def ano_keys_def qty_keys_def tipo_keys_def sample_builtins_def sample_int_of_str_def
  sample_float_of_str_def digit_of_def Let_def

lemmas sigla_simps = normalize_sigla_def normalizeSigla_spec_def sub_ses_prefix_def is_AZ_def
  is_ses_sep_def Let_def upper_def upper_char_def strip_def is_space_def newline_def

section \<open>Claims about the response of previsao\<close>



section \<open>Claims about the rule table and normalize\_insumo\<close>






text \<open>
  Claim C8.  When no rule matched the trimmed text and the DILUENTE block returned nothing,
  \<^const>\<open>normalize_insumo\<close> returns \<^verbatim>\<open>"Covid-19"\<close> exactly when the trimmed text has \<^verbatim>\<open>SARS\<close>
  and \<^verbatim>\<open>COV2\<close>, or \<^verbatim>\<open>COVID\<close> and \<^verbatim>\<open>19\<close>, with nothing, a hyphen or a blank between
  them, case ignored; otherwise it returns \<open>None\<close>.
\<close>

theorem C8_covid_fallback:
  assumes "match_mappings re (strip t) (mappings self) = Inr None"
    and "diluente_stage re self (strip t) = Inr None"
  shows "(normalize_insumo re self (Some t) = Inr (Some ''Covid-19'') \<longleftrightarrow> covid_marker (strip t)) \<and>
         (\<not> covid_marker (strip t) \<longrightarrow> normalize_insumo re self (Some t) = Inr None)"
proof -
  have "t = [] \<Longrightarrow> \<not> covid_marker (strip t)"
    by (simp add: covid_marker_def strip_def upper_def)
  then show ?thesis using assms
    by (auto simp: normalize_insumo_def and_then_def search_covid_marker)
qed

text \<open>
  Instances: \<^verbatim>\<open>"SARS-COV2 TESTE"\<close> and \<^verbatim>\<open>"XYZ UNKNOWN"\<close> with the rule \<^verbatim>\<open>BCG\<close>.
\<close>

theorem C8_covid_fallback_witness:
  "match_mappings lit_re (strip ''SARS-COV2 TESTE'') (mappings \<lparr>mappings = [rule_bcg]\<rparr>) = Inr None \<and>
   diluente_stage lit_re \<lparr>mappings = [rule_bcg]\<rparr> (strip ''SARS-COV2 TESTE'') = Inr None \<and>
   covid_marker (strip ''SARS-COV2 TESTE'') \<and>
   normalize_insumo lit_re \<lparr>mappings = [rule_bcg]\<rparr> (Some ''SARS-COV2 TESTE'') = Inr (Some ''Covid-19'') \<and>
   match_mappings lit_re (strip ''XYZ UNKNOWN'') (mappings \<lparr>mappings = [rule_bcg]\<rparr>) = Inr None \<and>
   diluente_stage lit_re \<lparr>mappings = [rule_bcg]\<rparr> (strip ''XYZ UNKNOWN'') = Inr None \<and>
   \<not> covid_marker (strip ''XYZ UNKNOWN'') \<and>
   normalize_insumo lit_re \<lparr>mappings = [rule_bcg]\<rparr> (Some ''XYZ UNKNOWN'') = Inr None"
proof -
  have 1: "match_mappings lit_re (strip ''SARS-COV2 TESTE'') (mappings \<lparr>mappings = [rule_bcg]\<rparr>) = Inr None"
    by (simp add: rule_bcg_def insumo_simps)
  have 2: "diluente_stage lit_re \<lparr>mappings = [rule_bcg]\<rparr> (strip ''SARS-COV2 TESTE'') = Inr None"
    by (simp add: rule_bcg_def insumo_simps)
  have 3: "covid_marker (strip ''SARS-COV2 TESTE'')"
    by (simp add: insumo_simps)
  have 4: "match_mappings lit_re (strip ''XYZ UNKNOWN'') (mappings \<lparr>mappings = [rule_bcg]\<rparr>) = Inr None"
    by (simp add: rule_bcg_def insumo_simps)
  have 5: "diluente_stage lit_re \<lparr>mappings = [rule_bcg]\<rparr> (strip ''XYZ UNKNOWN'') = Inr None"
    by (simp add: rule_bcg_def insumo_simps)
  have 6: "\<not> covid_marker (strip ''XYZ UNKNOWN'')"
    by (simp add: insumo_simps)
  from C8_covid_fallback[OF 1 2] C8_covid_fallback[OF 4 5] 1 2 3 4 5 6 show ?thesis by blast
qed

text \<open>
  Claim C10.  A value that \<^const>\<open>normalize_insumo\<close> returns, other than \<open>None\<close>, is \<^verbatim>\<open>"Covid-19"\<close> or
  the \<^verbatim>\<open>vacina_normalizada\<close> field of a rule of the table.
\<close>

theorem C10_labels_come_from_rules:
  assumes "normalize_insumo re self tx_insumo = Inr (Some l)"
  shows "l = ''Covid-19'' \<or> (\<exists>m\<in>set (mappings self). vacina_normalizada m = Some l)"
proof -
  obtain t where t: "tx_insumo = Some t" "t \<noteq> []"
    using assms by (auto simp: normalize_insumo_def split: option.splits if_splits)
  show ?thesis
  proof (cases "match_mappings re (strip t) (mappings self)")
    case (Inl e)
    then show ?thesis using assms t by (simp add: normalize_insumo_def and_then_def)
  next
    case (Inr r)
    show ?thesis
    proof (cases r)
      case (Some label)
      then have "label = Some l" using assms t Inr by (simp add: normalize_insumo_def and_then_def)
      then show ?thesis using match_mappings_label[of re "strip t" "mappings self" l] Inr Some by simp
    next
      case None
      note r = None
      show ?thesis
      proof (cases "diluente_stage re self (strip t)")
        case (Inl e)
        then show ?thesis using assms t Inr r by (simp add: normalize_insumo_def and_then_def)
      next
        case d: (Inr r')
        show ?thesis
        proof (cases r')
          case None
          then show ?thesis using assms t Inr r d
            by (simp add: normalize_insumo_def and_then_def split: if_splits)
        next
          case (Some label)
          then have l: "label = Some l" using assms t Inr r d by (simp add: normalize_insumo_def and_then_def)
          have "\<exists>c. match_mappings re c (mappings self) = Inr (Some (Some l))"
            using d Some l by (auto simp: diluente_stage_def Let_def split: if_splits)
          then show ?thesis using match_mappings_label by blast
        qed
      qed
    qed
  qed
qed

text \<open>
  An instance: \<^verbatim>\<open>"VACINA BCG "\<close> gives the label of the rule \<^verbatim>\<open>BCG\<close>.
\<close>

theorem C10_labels_come_from_rules_witness:
  "normalize_insumo lit_re (init_normalizer (Some [rule_generic, rule_bcg])) (Some ''VACINA BCG '') = Inr (Some ''BCG'') \<and>
   (''BCG'' = ''Covid-19'' \<or> (\<exists>m\<in>set (mappings (init_normalizer (Some [rule_generic, rule_bcg]))). vacina_normalizada m = Some ''BCG''))"
proof -
  have 1: "normalize_insumo lit_re (init_normalizer (Some [rule_generic, rule_bcg])) (Some ''VACINA BCG '') = Inr (Some ''BCG'')"
    by (simp add: normalize_insumo_def rule_step_def init_normalizer_def load_mappings_def priority_key_def
          rule_bcg_def rule_generic_def lit_re_def text_simps exn_simps)
  from C10_labels_come_from_rules[OF 1] 1 show ?thesis by blast
qed

section \<open>Claims about \_normalize\_row\<close>

text \<open>
  Claim C4, as amended.  In a keyed mapping the year, the quantity and the data kind are
  read under the first key of their candidate lists that is present with a value other
  than \<^verbatim>\<open>None\<close>; when year or quantity is still absent and the mapping has two values or
  more, the first value fills an absent year, the second an absent quantity and the third,
  if there is one, an absent data kind.  A sequence of two elements or more gives its
  first, second and, if present, third element.  A shorter sequence and every other shape
  give \<open>None\<close>.
\<close>

theorem C4_row_fields_amended:
  "row_fields item = row_fields_amended item \<and>
   normalize_row b item =
     (case row_fields_amended item of None \<Rightarrow> Inr None | Some f \<Rightarrow> Inr (canonical_row b f))"
proof -
  have "row_fields item = row_fields_amended item"
    by (cases item)
       (auto simp: row_fields_def row_fields_amended_def sequence_fields_def fill_by_position_def
          pick_first_non_null Let_def)
  then show ?thesis by (simp add: normalize_row_canonical)
qed

text \<open>
  An instance: a mapping with none of the candidate keys, read by position.
\<close>

theorem C4_row_fields_amended_witness:
  "row_fields_amended (PDict [(''year'', PInt 2021), (''total'', PInt 7), (''kind'', PStr ''historico'')] :: rat pyval) =
     Some (PInt 2021, PInt 7, PStr ''historico'') \<and>
   row_fields (PDict [(''year'', PInt 2021), (''total'', PInt 7), (''kind'', PStr ''historico'')] :: rat pyval) =
     Some (PInt 2021, PInt 7, PStr ''historico'') \<and>
   normalize_row sample_builtins (PDict [(''year'', PInt 2021), (''total'', PInt 7), (''kind'', PStr ''historico'')]) =
     Inr (Some \<lparr>ano = Some 2021, quantidade = Some 7, tipo_dado = Some ''historico''\<rparr>)"
proof -
  let ?row = "PDict [(''year'', PInt 2021), (''total'', PInt 7), (''kind'', PStr ''historico'')] :: rat pyval"
  have 1: "row_fields_amended ?row = Some (PInt 2021, PInt 7, PStr ''historico'')"
    by (simp add: row_fields_amended_def first_non_null_def fill_by_position_def dict_get_def
          ano_keys_def qty_keys_def tipo_keys_def)
  have 2: "canonical_row sample_builtins (PInt 2021, PInt 7, PStr ''historico'') =
       Some \<lparr>ano = Some 2021, quantidade = Some 7, tipo_dado = Some ''historico''\<rparr>"
    by (simp add: canonical_row_def year_of_def quantity_of_def kind_of_def py_str_def sample_builtins_def)
  from C4_row_fields_amended[of ?row sample_builtins] 1 2 show ?thesis by simp
qed

text \<open>
  The claim as it was stated fails twice.  A key that is present with the value \<^verbatim>\<open>None\<close>
  is passed over, so \<^verbatim>\<open>{"ano": null, "year": 2020, ...}\<close> has the year 2020, not an absent
  year.  A mapping with one value is not read by position, so \<^verbatim>\<open>{"x": 2020}\<close> has no
  year and normalizes to \<open>None\<close>.
\<close>

theorem C4_row_fields_as_claimed_differ:
  "row_fields (PDict [(''ano'', PNone), (''year'', PInt 2020), (''quantidade'', PInt 5),
                      (''tipo_dado'', PStr ''historico'')] :: rat pyval) =
     Some (PInt 2020, PInt 5, PStr ''historico'') \<and>
   row_fields_claimed (PDict [(''ano'', PNone), (''year'', PInt 2020), (''quantidade'', PInt 5),
                      (''tipo_dado'', PStr ''historico'')] :: rat pyval) =
     Some (PNone, PInt 5, PStr ''historico'') \<and>
   row_fields (PDict [(''x'', PInt 2020)] :: rat pyval) = Some (PNone, PNone, PNone) \<and>
   row_fields_claimed (PDict [(''x'', PInt 2020)] :: rat pyval) = Some (PInt 2020, PNone, PNone) \<and>
   normalize_row sample_builtins (PDict [(''x'', PInt 2020)]) = Inr None \<and>
   canonical_row sample_builtins (PInt 2020, PNone, PNone) =
     Some \<lparr>ano = Some 2020, quantidade = None, tipo_dado = None\<rparr>"
  by (simp add: row_fields_claimed_def first_present_def fill_by_position_def canonical_row_def
        year_of_def quantity_of_def kind_of_def row_simps)

text \<open>
  Claim C5.  \<^const>\<open>normalize_row\<close> raises on no row, whatever the conversions raise.  On a
  row it accepts, the year is the integer coercion of its value or, when that fails, the
  truncation of its floating-point parse, and absent when both fail; the quantity is the
  floating-point coercion of its value, absent when that fails; the data kind is the text
  of its value, an absent value staying absent; and the result is \<open>None\<close> when all
  three are absent.
\<close>

theorem C5_coercion_never_raises:
  "(\<exists>r. normalize_row b item = Inr r) \<and>
   (\<forall>f. row_fields item = Some f \<longrightarrow> normalize_row b item = Inr (canonical_row b f))"
  by (cases "row_fields item") (simp_all add: normalize_row_canonical)

text \<open>
  Instances: \<^verbatim>\<open>["2021.0", "150.5", "historico"]\<close>, where the year comes through the
  floating-point parse, and \<^verbatim>\<open>["abc", [], None]\<close>, where every coercion fails.
\<close>

theorem C5_coercion_never_raises_witness:
  "row_fields (PList [PStr ''2021.0'', PStr ''150.5'', PStr ''historico''] :: rat pyval) =
     Some (PStr ''2021.0'', PStr ''150.5'', PStr ''historico'') \<and>
   py_int sample_builtins (PStr ''2021.0'') = Inl ValueError \<and>
   normalize_row sample_builtins (PList [PStr ''2021.0'', PStr ''150.5'', PStr ''historico'']) =
     Inr (Some \<lparr>ano = Some 2021, quantidade = Some (301 / 2), tipo_dado = Some ''historico''\<rparr>) \<and>
   row_fields (PList [PStr ''abc'', PList [], PNone] :: rat pyval) = Some (PStr ''abc'', PList [], PNone) \<and>
   normalize_row sample_builtins (PList [PStr ''abc'', PList [], PNone]) = Inr None"
proof -
  have 1: "row_fields (PList [PStr ''2021.0'', PStr ''150.5'', PStr ''historico''] :: rat pyval) =
     Some (PStr ''2021.0'', PStr ''150.5'', PStr ''historico'')"
    by (simp add: row_fields_def)
  have 2: "row_fields (PList [PStr ''abc'', PList [], PNone] :: rat pyval) = Some (PStr ''abc'', PList [], PNone)"
    by (simp add: row_fields_def)
  have 3: "py_int sample_builtins (PStr ''2021.0'') = Inl ValueError"
    by (simp add: row_simps)
  have 4: "canonical_row sample_builtins (PStr ''2021.0'', PStr ''150.5'', PStr ''historico'') =
       Some \<lparr>ano = Some 2021, quantidade = Some (301 / 2), tipo_dado = Some ''historico''\<rparr>"
    by (simp add: canonical_row_def year_of_def quantity_of_def kind_of_def row_simps)
  have 5: "canonical_row sample_builtins (PStr ''abc'', PList [], PNone) = None"
    by (simp add: canonical_row_def year_of_def quantity_of_def kind_of_def row_simps)
  from C5_coercion_never_raises[of sample_builtins "PList [PStr ''2021.0'', PStr ''150.5'', PStr ''historico'']",
      THEN conjunct2, rule_format, OF 1]
    C5_coercion_never_raises[of sample_builtins "PList [PStr ''abc'', PList [], PNone]",
      THEN conjunct2, rule_format, OF 2]
    1 2 3 4 5
  show ?thesis by simp
qed

section \<open>Claims about normalize\_sigla\<close>



text \<open>
  Claim C7, as amended.  Applying \<^const>\<open>normalize_sigla\<close> to its own result gives that result
  again exactly when the result is \<open>None\<close> or does not end in a white-space character.
\<close>

theorem C7_normalize_sigla_stable:
  "(normalize_sigla (normalize_sigla tx_sigla) = normalize_sigla tx_sigla) \<longleftrightarrow>
   (case normalize_sigla tx_sigla of None \<Rightarrow> True | Some r \<Rightarrow> \<not> is_space (last r))"
proof (cases "normalize_sigla tx_sigla")
  case None
  then show ?thesis by (simp add: normalize_sigla_def)
next
  case (Some r)
  then obtain t where t: "tx_sigla = Some t" "t \<noteq> []"
    by (auto simp: normalize_sigla_def split: option.splits if_splits)
  let ?s = "sub_ses_prefix (upper (strip t))"
  have r: "(case search_upper2_eol ?s of Some g \<Rightarrow> Some g
            | None \<Rightarrow> if ?s \<noteq> [] then Some (take 2 ?s) else None) = Some r"
    using Some t by (simp add: normalize_sigla_def Let_def)
  show ?thesis
  proof (cases "search_upper2_eol ?s")
    case (Some g)
    then have "g = r" using r by simp
    moreover obtain a b where "g = [a, b]" "is_AZ a" "is_AZ b"
      using search_upper2_eol_len[OF Some] search_upper2_eol_AZ[OF Some]
      by (cases g; cases "tl g") auto
    ultimately have rab: "r = [a, b]" by simp
    show ?thesis
      unfolding \<open>normalize_sigla tx_sigla = Some r\<close> rab
      using normalize_sigla_two_AZ[of a b] AZ_not_space[of b] \<open>is_AZ a\<close> \<open>is_AZ b\<close>
      by simp
  next
    case None
    then have s: "?s \<noteq> []" and rs: "r = take 2 ?s" using r by (auto split: if_splits)
    have hd: "\<not> is_space (hd ?s)" using s by (rule sigla_rest_hd)
    have up: "\<And>c. c \<in> set ?s \<Longrightarrow> upper_char c = c" by (rule sigla_rest_upper)
    obtain a rest where ar: "?s = a # rest" using s by (cases ?s) auto
    have a: "\<not> is_space a" "upper_char a = a" using hd up ar by auto
    show ?thesis
    proof (cases rest)
      case Nil
      then have "r = [a]" using rs ar by simp
      then show ?thesis using a \<open>normalize_sigla tx_sigla = Some r\<close> normalize_sigla_one[of a] by simp
    next
      case (Cons b rest')
      then have rab: "r = [a, b]" using rs ar by simp
      have b: "upper_char b = b" using up ar Cons by auto
      show ?thesis
      proof (cases "is_space b")
        case True
        then show ?thesis
          using a rab \<open>normalize_sigla tx_sigla = Some r\<close> normalize_sigla_two_space[of a b] by simp
      next
        case False
        then show ?thesis
          using a b rab \<open>normalize_sigla tx_sigla = Some r\<close> normalize_sigla_two[of a b] by simp
      qed
    qed
  qed
qed

text \<open>An instance: \<^verbatim>\<open>"ses-sp"\<close> gives \<^verbatim>\<open>"SP"\<close>, and \<^verbatim>\<open>"SP"\<close> gives \<^verbatim>\<open>"SP"\<close>.\<close>

theorem C7_normalize_sigla_stable_witness:
  "normalize_sigla (normalize_sigla (Some ''ses-sp'')) = normalize_sigla (Some ''ses-sp'') \<and>
   normalize_sigla (Some ''ses-sp'') = Some ''SP'' \<and> \<not> is_space (last ''SP'')"
  using C7_normalize_sigla_stable[of "Some ''ses-sp''"]
  by (simp add: sigla_simps)

text \<open>
  The claim as it was stated fails: \<^verbatim>\<open>"A B"\<close> has no two letters at its end, so its first
  two characters \<^verbatim>\<open>"A "\<close> are returned, and the second call trims them to \<^verbatim>\<open>"A"\<close>.
\<close>

theorem C7_normalize_sigla_unstable:
  "normalize_sigla (Some ''A B'') = Some ''A '' \<and>
   normalize_sigla (normalize_sigla (Some ''A B'')) = Some ''A'' \<and>
   normalize_sigla (normalize_sigla (Some ''A B'')) \<noteq> normalize_sigla (Some ''A B'')"
  by (simp add: sigla_simps)

text \<open>
  Claim C9, as amended.  A result of \<^const>\<open>normalize_sigla\<close> other than \<open>None\<close> has one or
  two characters.
\<close>

theorem C9_normalize_sigla_length:
  "normalize_sigla tx_sigla = Some r \<Longrightarrow> 1 \<le> length r \<and> length r \<le> 2"
  by (auto simp: normalize_sigla_def Let_def Suc_le_eq dest: search_upper2_eol_len
           split: option.splits if_splits)

text \<open>An instance: \<^verbatim>\<open>"SES./RJ"\<close> gives \<^verbatim>\<open>"RJ"\<close>.\<close>

theorem C9_normalize_sigla_length_witness:
  "normalize_sigla (Some ''SES./RJ'') = Some ''RJ'' \<and> 1 \<le> length ''RJ'' \<and> length ''RJ'' \<le> 2"
  using C9_normalize_sigla_length[of "Some ''SES./RJ''" "''RJ''"]
  by (simp add: sigla_simps)

text \<open>
  The claim as it was stated, exactly two characters, fails on a one-character input:
  \<^verbatim>\<open>"A"\<close> gives \<^verbatim>\<open>"A"\<close>.
\<close>

theorem C9_normalize_sigla_one_char: "normalize_sigla (Some ''A'') = Some ''A'' \<and> length ''A'' \<noteq> 2"
  by (simp add: sigla_simps)

end
